theory Spec2Isabelle
  imports Main
begin

section \<open>Payloads and the Python operations applied to them\<close>

text \<open>
  \<^verbatim>\<open>response.json()\<close> yields nested Python values: \<^verbatim>\<open>None\<close>, booleans, integers,
  strings, lists and dictionaries with string keys. A dictionary is kept as the list of
  its items in insertion order (the keys of a parsed payload are distinct); a lookup takes
  the first item with the key. A character stands for a code point below 256. Numbers
  with a fraction or an exponent are outside the model.
\<close>

datatype json =
    JNull
  | JBool bool
  | JInt int
  | JStr string
  | JArr "json list"
  | JObj "(string \<times> json) list"

text \<open>The exceptions the program can raise; none of them is caught anywhere in it.\<close>

datatype error = KeyError | TypeError | IndexError | AttributeError | JSONDecodeError

definition bind_result :: "error + 'a \<Rightarrow> ('a \<Rightarrow> error + 'b) \<Rightarrow> error + 'b" where
  "bind_result r f = (case r of Inl e \<Rightarrow> Inl e | Inr x \<Rightarrow> f x)"

text \<open>Truth value of a Python object, as \<^verbatim>\<open>if x:\<close> and \<^verbatim>\<open>not x\<close> take it.\<close>

fun py_truthy :: "json \<Rightarrow> bool" where
  "py_truthy JNull = False"
| "py_truthy (JBool b) = b"
| "py_truthy (JInt i) = (i \<noteq> 0)"
| "py_truthy (JStr s) = (s \<noteq> [])"
| "py_truthy (JArr xs) = (xs \<noteq> [])"
| "py_truthy (JObj kvs) = (kvs \<noteq> [])"

text \<open>\<^verbatim>\<open>x[k]\<close> for a string \<^verbatim>\<open>k\<close>.\<close>

fun py_getitem :: "json \<Rightarrow> string \<Rightarrow> error + json" where
  "py_getitem (JObj kvs) k = (case map_of kvs k of None \<Rightarrow> Inl KeyError | Some v \<Rightarrow> Inr v)"
| "py_getitem _ k = Inl TypeError"

text \<open>\<^verbatim>\<open>x[0]\<close>: the keys of a payload dictionary are strings, so \<^verbatim>\<open>0\<close> is never one.\<close>

fun py_getitem0 :: "json \<Rightarrow> error + json" where
  "py_getitem0 (JArr []) = Inl IndexError"
| "py_getitem0 (JArr (x # xs)) = Inr x"
| "py_getitem0 (JStr []) = Inl IndexError"
| "py_getitem0 (JStr (c # cs)) = Inr (JStr [c])"
| "py_getitem0 (JObj kvs) = Inl KeyError"
| "py_getitem0 _ = Inl TypeError"

text \<open>\<^verbatim>\<open>x[k1][k2]...\<close>, left to right.\<close>

fun py_path :: "json \<Rightarrow> string list \<Rightarrow> error + json" where
  "py_path x [] = Inr x"
| "py_path x (k # ks) = bind_result (py_getitem x k) (\<lambda>y. py_path y ks)"

fun py_len :: "json \<Rightarrow> error + nat" where
  "py_len (JStr s) = Inr (length s)"
| "py_len (JArr xs) = Inr (length xs)"
| "py_len (JObj kvs) = Inr (length kvs)"
| "py_len _ = Inl TypeError"

text \<open>The values a \<^verbatim>\<open>for\<close> loop or a comprehension draws from \<^verbatim>\<open>x\<close>.\<close>

fun py_iter :: "json \<Rightarrow> error + json list" where
  "py_iter (JArr xs) = Inr xs"
| "py_iter (JStr s) = Inr (map (\<lambda>c. JStr [c]) s)"
| "py_iter (JObj kvs) = Inr (map (\<lambda>kv. JStr (fst kv)) kvs)"
| "py_iter _ = Inl TypeError"

definition py_substring :: "string \<Rightarrow> string \<Rightarrow> bool" where
  "py_substring k s = list_ex (\<lambda>i. take (length k) (drop i s) = k) [0..<Suc (length s)]"

text \<open>\<^verbatim>\<open>k in x\<close> for a string \<^verbatim>\<open>k\<close>.\<close>

fun py_contains :: "string \<Rightarrow> json \<Rightarrow> error + bool" where
  "py_contains k (JObj kvs) = Inr (k \<in> fst ` set kvs)"
| "py_contains k (JArr xs) = Inr (JStr k \<in> set xs)"
| "py_contains k (JStr s) = Inr (py_substring k s)"
| "py_contains k _ = Inl TypeError"

text \<open>\<^verbatim>\<open>x.get(k, d)\<close>: only a dictionary has the method.\<close>

fun py_get :: "json \<Rightarrow> string \<Rightarrow> json \<Rightarrow> error + json" where
  "py_get (JObj kvs) k d = Inr (case map_of kvs k of None \<Rightarrow> d | Some v \<Rightarrow> v)"
| "py_get _ k d = Inl AttributeError"

subsection \<open>Equality\<close>

text \<open>
  \<^verbatim>\<open>a == b\<close>: \<^verbatim>\<open>True == 1\<close> and \<^verbatim>\<open>False == 0\<close> hold, lists are compared item by
  item, dictionaries as mappings.
\<close>

function py_eq :: "json \<Rightarrow> json \<Rightarrow> bool" where
  "py_eq JNull b = (b = JNull)"
| "py_eq (JBool x) b =
     (case b of JBool y \<Rightarrow> x = y | JInt j \<Rightarrow> j = (if x then 1 else 0) | _ \<Rightarrow> False)"
| "py_eq (JInt i) b =
     (case b of JBool y \<Rightarrow> i = (if y then 1 else 0) | JInt j \<Rightarrow> i = j | _ \<Rightarrow> False)"
| "py_eq (JStr s) b = (b = JStr s)"
| "py_eq (JArr xs) b = (case b of JArr ys \<Rightarrow> list_all2 py_eq xs ys | _ \<Rightarrow> False)"
| "py_eq (JObj kvs) b =
     (case b of
        JObj kvs' \<Rightarrow>
          length kvs = length kvs' \<and>
          list_all (\<lambda>(k, v). case map_of kvs' k of None \<Rightarrow> False | Some v' \<Rightarrow> py_eq v v') kvs
      | _ \<Rightarrow> False)"
  by pat_completeness auto
termination
proof -
  have elem: "size x < Suc (size_list size xs)" if "x \<in> set xs" for x :: json and xs
    using that by (induction xs) auto
  have item: "size v < Suc (size_list (size_prod (\<lambda>_. 0) size) kvs)"
    if "(k, v) \<in> set kvs" for k :: string and v :: json and kvs
    using that by (induction kvs) auto
  show ?thesis
    by (relation "measure (\<lambda>(a, b). size a)") (auto simp: elem item)
qed

text \<open>Only \<^verbatim>\<open>None\<close>, booleans, integers and strings can be keys of a dictionary.\<close>

fun py_hashable :: "json \<Rightarrow> bool" where
  "py_hashable (JArr xs) = False"
| "py_hashable (JObj kvs) = False"
| "py_hashable _ = True"

subsection \<open>Text\<close>

definition digit_char :: "nat \<Rightarrow> char" where
  "digit_char n = ''0123456789abcdef'' ! n"

function str_nat :: "nat \<Rightarrow> string" where
  "str_nat n = (if n < 10 then [digit_char n] else str_nat (n div 10) @ [digit_char (n mod 10)])"
  by pat_completeness auto
termination
  by (relation "measure id") auto

declare str_nat.simps [simp del]

text \<open>\<^verbatim>\<open>str(i)\<close> of an integer.\<close>

definition str_int :: "int \<Rightarrow> string" where
  "str_int i = (if i < 0 then CHR ''-'' # str_nat (nat (- i)) else str_nat (nat i))"

text \<open>\<^verbatim>\<open>repr\<close> of a string: the quote is chosen first, then each character is escaped.\<close>

definition repr_char :: "char \<Rightarrow> char \<Rightarrow> string" where
  "repr_char quote c =
     (let n = (of_char c :: nat) in
      if c = CHR 0x5C \<or> c = quote then [CHR 0x5C, c]
      else if c = CHR 0x09 then [CHR 0x5C, CHR ''t'']
      else if c = CHR 0x0A then [CHR 0x5C, CHR ''n'']
      else if c = CHR 0x0D then [CHR 0x5C, CHR ''r'']
      else if n < 32 \<or> n = 127 \<or> (128 \<le> n \<and> n \<le> 160) \<or> n = 173
        then [CHR 0x5C, CHR ''x'', digit_char (n div 16), digit_char (n mod 16)]
      else [c])"

definition repr_str :: "string \<Rightarrow> string" where
  "repr_str s =
     (let quote = (if CHR 0x27 \<in> set s \<and> CHR 0x22 \<notin> set s then CHR 0x22 else CHR 0x27)
      in quote # concat (map (repr_char quote) s) @ [quote])"

text \<open>\<^verbatim>\<open>sep.join(xs)\<close>.\<close>

fun py_join :: "string \<Rightarrow> string list \<Rightarrow> string" where
  "py_join sep [] = []"
| "py_join sep [x] = x"
| "py_join sep (x # y # ys) = x @ sep @ py_join sep (y # ys)"

fun py_repr :: "json \<Rightarrow> string" where
  "py_repr JNull = ''None''"
| "py_repr (JBool b) = (if b then ''True'' else ''False'')"
| "py_repr (JInt i) = str_int i"
| "py_repr (JStr s) = repr_str s"
| "py_repr (JArr xs) = ''['' @ py_join '', '' (map py_repr xs) @ '']''"
| "py_repr (JObj kvs) =
     ''{'' @ py_join '', '' (map (\<lambda>(k, v). repr_str k @ '': '' @ py_repr v) kvs) @ ''}''"

text \<open>What \<^verbatim>\<open>{x}\<close> inside an f-string renders.\<close>

fun py_str :: "json \<Rightarrow> string" where
  "py_str (JStr s) = s"
| "py_str x = py_repr x"


section \<open>Transport\<close>

text \<open>
  \<^verbatim>\<open>requests.get(url)\<close> answers with a status code and a body; \<^verbatim>\<open>response.json()\<close>
  raises when the body is not JSON. The remote service is a function from the URL to its
  answer, and every request made is recorded in order. Console output and the final
  export to CSV are not modelled: the program's result is the collected row list.
\<close>

record response =
  status_code :: int
  body :: "json option"

type_synonym world = "string \<Rightarrow> response"

definition response_json :: "response \<Rightarrow> error + json" where
  "response_json r = (case body r of None \<Rightarrow> Inl JSONDecodeError | Some j \<Rightarrow> Inr j)"

record output_row =
  Season :: int
  Round :: int
  Race_Name :: json
  Circuit_Name :: json
  Location :: json
  Race_Date :: json
  Driver_Name :: string
  Driver_ID :: json
  Driver_Nationality :: json
  Constructor :: json
  Qualifying_Position :: json
  Q1_Time :: json
  Q2_Time :: json
  Q3_Time :: json
  Starting_Grid_Position :: json
  Final_Position :: json
  Finishing_Status :: json
  Time_Status :: json
  Points :: json
  Laps_Completed :: json
  Driver_Total_Points :: json
  Pit_Stop_Count :: nat
  Pit_Stop_Details :: string

record state =
  all_race_data :: "output_row list"
  requests :: "string list"

definition requests_get :: "world \<Rightarrow> string \<Rightarrow> state \<Rightarrow> response \<times> state" where
  "requests_get w url st = (w url, st\<lparr>requests := requests st @ [url]\<rparr>)"

section \<open>Endpoint fetchers\<close>

definition api :: string where
  "api = ''http://ergast.com/api/f1/''"

definition race_url :: "int \<Rightarrow> int \<Rightarrow> string" where
  "race_url season round_number = api @ str_int season @ ''/'' @ str_int round_number @ ''.json''"

definition fetch_race_data :: "world \<Rightarrow> int \<Rightarrow> int \<Rightarrow> state \<Rightarrow> (error + json) \<times> state" where
  "fetch_race_data w season round_number st =
     (let (response, st') = requests_get w (race_url season round_number) st in
      (if status_code response = 200 then
         bind_result (response_json response) (\<lambda>j.
         bind_result (py_path j [''MRData'', ''RaceTable'', ''Races'']) (\<lambda>races.
           if py_truthy races then py_getitem0 races else Inr JNull))
       else Inr JNull, st'))"

definition standings_url :: "int \<Rightarrow> int \<Rightarrow> string" where
  "standings_url season round_number =
     api @ str_int season @ ''/'' @ str_int round_number @ ''/driverStandings.json''"

text \<open>\<^verbatim>\<open>data and len(data) > 0\<close>: the length is taken only of a true \<^verbatim>\<open>data\<close>.\<close>

definition nonempty :: "json \<Rightarrow> error + bool" where
  "nonempty data =
     (if py_truthy data then bind_result (py_len data) (\<lambda>n. Inr (n > 0)) else Inr False)"

definition fetch_driver_standings ::
  "world \<Rightarrow> int \<Rightarrow> int \<Rightarrow> state \<Rightarrow> (error + json) \<times> state" where
  "fetch_driver_standings w season round_number st =
     (let (response, st') = requests_get w (standings_url season round_number) st in
      (if status_code response = 200 then
         bind_result (response_json response) (\<lambda>j.
         bind_result (py_path j [''MRData'', ''StandingsTable'', ''StandingsLists'']) (\<lambda>data.
         bind_result (nonempty data) (\<lambda>c.
           if c then bind_result (py_getitem0 data) (\<lambda>d. py_getitem d ''DriverStandings'')
           else Inr (JArr []))))
       else Inr (JArr []), st'))"

definition results_url :: "int \<Rightarrow> int \<Rightarrow> string" where
  "results_url season round_number =
     api @ str_int season @ ''/'' @ str_int round_number @ ''/results.json''"

definition fetch_race_results ::
  "world \<Rightarrow> int \<Rightarrow> int \<Rightarrow> state \<Rightarrow> (error + json) \<times> state" where
  "fetch_race_results w season round_number st =
     (let (response, st') = requests_get w (results_url season round_number) st in
      (if status_code response = 200 then
         bind_result (response_json response) (\<lambda>j.
         bind_result (py_path j [''MRData'', ''RaceTable'', ''Races'']) (\<lambda>race_table.
           if py_truthy race_table
           then bind_result (py_getitem0 race_table) (\<lambda>r. py_getitem r ''Results'')
           else Inr (JArr [])))
       else Inr (JArr []), st'))"

subsection \<open>Qualifying\<close>

text \<open>
  The dictionary \<^verbatim>\<open>qualifying_data\<close>, keyed by driver identifier, as its item list.
  \<^verbatim>\<open>d[k] = v\<close> replaces the value of an equal key and appends otherwise.
\<close>

fun dict_set :: "(json \<times> json) list \<Rightarrow> json \<Rightarrow> json \<Rightarrow> (json \<times> json) list" where
  "dict_set [] k v = [(k, v)]"
| "dict_set ((k', v') # kvs) k v =
     (if py_eq k' k then (k', v) # kvs else (k', v') # dict_set kvs k v)"

fun dict_lookup :: "(json \<times> json) list \<Rightarrow> json \<Rightarrow> json option" where
  "dict_lookup [] k = None"
| "dict_lookup ((k', v') # kvs) k = (if py_eq k' k then Some v' else dict_lookup kvs k)"

text \<open>\<^verbatim>\<open>d.get(k, default)\<close>: hashing the key comes first.\<close>

definition dict_get :: "(json \<times> json) list \<Rightarrow> json \<Rightarrow> json \<Rightarrow> error + json" where
  "dict_get d k dflt =
     (if py_hashable k then Inr (case dict_lookup d k of None \<Rightarrow> dflt | Some v \<Rightarrow> v)
      else Inl TypeError)"

definition qualifying_url :: "int \<Rightarrow> int \<Rightarrow> string" where
  "qualifying_url season round_number =
     api @ str_int season @ ''/'' @ str_int round_number @ ''/qualifying.json''"

text \<open>The body of the loop over \<^verbatim>\<open>data[0]["QualifyingResults"]\<close>.\<close>

definition qualifying_entry :: "json \<Rightarrow> error + json \<times> json" where
  "qualifying_entry entry =
     bind_result (py_path entry [''Driver'', ''driverId'']) (\<lambda>driver_id.
     bind_result (py_getitem entry ''position'') (\<lambda>position.
     bind_result (py_get entry ''Q1'' (JStr ''N/A'')) (\<lambda>q1.
     bind_result (py_get entry ''Q2'' (JStr ''N/A'')) (\<lambda>q2.
     bind_result (py_get entry ''Q3'' (JStr ''N/A'')) (\<lambda>q3.
       if py_hashable driver_id
       then Inr (driver_id,
                 JObj [(''position'', position), (''Q1'', q1), (''Q2'', q2), (''Q3'', q3)])
       else Inl TypeError)))))"

fun qualifying_loop ::
  "(json \<times> json) list \<Rightarrow> json list \<Rightarrow> error + (json \<times> json) list" where
  "qualifying_loop qualifying_data [] = Inr qualifying_data"
| "qualifying_loop qualifying_data (entry # entries) =
     bind_result (qualifying_entry entry) (\<lambda>(driver_id, info).
       qualifying_loop (dict_set qualifying_data driver_id info) entries)"

definition fetch_qualifying_results ::
  "world \<Rightarrow> int \<Rightarrow> int \<Rightarrow> state \<Rightarrow> (error + (json \<times> json) list) \<times> state" where
  "fetch_qualifying_results w season round_number st =
     (let (response, st') = requests_get w (qualifying_url season round_number) st in
      (if status_code response = 200 then
         bind_result (response_json response) (\<lambda>j.
         bind_result (py_path j [''MRData'', ''RaceTable'', ''Races'']) (\<lambda>data.
         bind_result (nonempty data) (\<lambda>c.
         bind_result (if c then bind_result (py_getitem0 data) (py_contains ''QualifyingResults'')
                      else Inr False) (\<lambda>c'.
           if c' then
             bind_result (py_getitem0 data) (\<lambda>d.
             bind_result (py_getitem d ''QualifyingResults'') (\<lambda>qs.
             bind_result (py_iter qs) (qualifying_loop [])))
           else Inr []))))
       else Inr [], st'))"

subsection \<open>Finishing status and pit stops\<close>

definition status_url :: "int \<Rightarrow> json \<Rightarrow> string" where
  "status_url season driver_id =
     api @ str_int season @ ''/drivers/'' @ py_str driver_id @ ''/status.json''"

definition fetch_finishing_status_for_season_driver ::
  "world \<Rightarrow> int \<Rightarrow> json \<Rightarrow> state \<Rightarrow> (error + json) \<times> state" where
  "fetch_finishing_status_for_season_driver w season driver_id st =
     (let (response, st') = requests_get w (status_url season driver_id) st in
      (if status_code response = 200 then
         bind_result (response_json response) (\<lambda>j.
           py_path j [''MRData'', ''StatusTable'', ''Status''])
       else Inr (JArr []), st'))"

definition pitstops_url :: "int \<Rightarrow> int \<Rightarrow> json \<Rightarrow> string" where
  "pitstops_url season round_number driver_id =
     api @ str_int season @ ''/'' @ str_int round_number @ ''/drivers/'' @ py_str driver_id
       @ ''/pitstops.json''"

definition fetch_pitstops ::
  "world \<Rightarrow> int \<Rightarrow> int \<Rightarrow> json \<Rightarrow> state \<Rightarrow> (error + json) \<times> state" where
  "fetch_pitstops w season round_number driver_id st =
     (let (response, st') = requests_get w (pitstops_url season round_number driver_id) st in
      (if status_code response = 200 then
         bind_result (response_json response) (\<lambda>j.
         bind_result (py_path j [''MRData'', ''RaceTable'', ''Races'']) (\<lambda>race_table.
         bind_result (if py_truthy race_table
                      then bind_result (py_getitem0 race_table) (py_contains ''PitStops'')
                      else Inr False) (\<lambda>c.
           if c then bind_result (py_getitem0 race_table) (\<lambda>r. py_getitem r ''PitStops'')
           else Inr (JArr []))))
       else Inr (JArr []), st'))"

section \<open>Round aggregator\<close>

text \<open>The four values read from the race record before any other endpoint is queried.\<close>

record race_details =
  race_name :: json
  circuit_name :: json
  location :: json
  race_date :: json

definition read_race :: "json \<Rightarrow> error + race_details" where
  "read_race race =
     bind_result (py_getitem race ''raceName'') (\<lambda>n.
     bind_result (py_path race [''Circuit'', ''circuitName'']) (\<lambda>c.
     bind_result (py_path race [''Circuit'', ''Location'', ''locality'']) (\<lambda>l.
     bind_result (py_getitem race ''date'') (\<lambda>d.
       Inr \<lparr>race_name = n, circuit_name = c, location = l, race_date = d\<rparr>))))"

text \<open>
  \<^verbatim>\<open>next((s for s in standings if s["Driver"]["driverId"] == driver_id), None)\<close>:
  the scan stops at the first match; an entry met before it whose identifier cannot be
  read raises.
\<close>

fun next_standing :: "json list \<Rightarrow> json \<Rightarrow> error + json" where
  "next_standing [] driver_id = Inr JNull"
| "next_standing (s # standings) driver_id =
     bind_result (py_path s [''Driver'', ''driverId'']) (\<lambda>sid.
       if py_eq sid driver_id then Inr s else next_standing standings driver_id)"

text \<open>What the loop body knows of a driver before the pit stops are fetched.\<close>

record joined =
  j_driver :: json
  j_constructor :: json
  j_driver_id :: json
  j_driver_standing :: json
  j_qual_position :: json
  j_q1_time :: json
  j_q2_time :: json
  j_q3_time :: json

definition join_driver :: "json \<Rightarrow> (json \<times> json) list \<Rightarrow> json \<Rightarrow> error + joined" where
  "join_driver standings qualifying_data result =
     bind_result (py_getitem result ''Driver'') (\<lambda>driver.
     bind_result (py_getitem result ''Constructor'') (\<lambda>constructor.
     bind_result (py_getitem driver ''driverId'') (\<lambda>driver_id.
     bind_result (bind_result (py_iter standings) (\<lambda>ss. next_standing ss driver_id))
       (\<lambda>driver_standing.
     bind_result (dict_get qualifying_data driver_id (JObj [])) (\<lambda>qual_info.
     bind_result (py_get qual_info ''position'' (JStr ''N/A'')) (\<lambda>qual_position.
     bind_result (py_get qual_info ''Q1'' (JStr ''N/A'')) (\<lambda>q1_time.
     bind_result (py_get qual_info ''Q2'' (JStr ''N/A'')) (\<lambda>q2_time.
     bind_result (py_get qual_info ''Q3'' (JStr ''N/A'')) (\<lambda>q3_time.
       Inr \<lparr>j_driver = driver, j_constructor = constructor, j_driver_id = driver_id,
            j_driver_standing = driver_standing, j_qual_position = qual_position,
            j_q1_time = q1_time, j_q2_time = q2_time, j_q3_time = q3_time\<rparr>)))))))))"

text \<open>\<^verbatim>\<open>f"Stop {p['stop']} @Lap {p['lap']} (Duration={p['duration']}s)"\<close>.\<close>

definition pitstop_text :: "json \<Rightarrow> error + string" where
  "pitstop_text p =
     bind_result (py_getitem p ''stop'') (\<lambda>n.
     bind_result (py_getitem p ''lap'') (\<lambda>l.
     bind_result (py_getitem p ''duration'') (\<lambda>d.
       Inr (''Stop '' @ py_str n @ '' @Lap '' @ py_str l @ '' (Duration='' @ py_str d @ ''s)''))))"

text \<open>A list comprehension whose element expression may raise.\<close>

fun map_result :: "('a \<Rightarrow> error + 'b) \<Rightarrow> 'a list \<Rightarrow> error + 'b list" where
  "map_result f [] = Inr []"
| "map_result f (x # xs) =
     bind_result (f x) (\<lambda>y. bind_result (map_result f xs) (\<lambda>ys. Inr (y # ys)))"

definition pitstop_details :: "json \<Rightarrow> error + string" where
  "pitstop_details pitstops =
     (if py_truthy pitstops then
        bind_result (py_iter pitstops) (\<lambda>ps.
        bind_result (map_result pitstop_text ps) (\<lambda>texts. Inr (py_join ''; '' texts)))
      else Inr ''No Pitstops'')"

text \<open>
  From \<^verbatim>\<open>num_pitstops = len(pitstops)\<close> to the row: the detail string is computed twice
  in the source, from the same \<^verbatim>\<open>pitstops\<close>, and the entries of the row are evaluated in
  the order they are written.
\<close>

definition build_row ::
  "int \<Rightarrow> int \<Rightarrow> race_details \<Rightarrow> joined \<Rightarrow> json \<Rightarrow> json \<Rightarrow> error + output_row" where
  "build_row season round_number race j pitstops result =
     bind_result (py_len pitstops) (\<lambda>num_pitstops.
     bind_result (pitstop_details pitstops) (\<lambda>first_details.
     bind_result (pitstop_details pitstops) (\<lambda>details.
     bind_result (py_getitem result ''status'') (\<lambda>finishing_status.
     bind_result (py_getitem (j_driver j) ''givenName'') (\<lambda>given.
     bind_result (py_getitem (j_driver j) ''familyName'') (\<lambda>family.
     bind_result (py_getitem (j_driver j) ''nationality'') (\<lambda>nationality.
     bind_result (py_getitem (j_constructor j) ''name'') (\<lambda>constructor_name.
     bind_result (py_getitem result ''grid'') (\<lambda>grid.
     bind_result (py_getitem result ''position'') (\<lambda>final.
     bind_result (bind_result (py_contains ''Time'' result) (\<lambda>c.
                    if c then py_path result [''Time'', ''time''] else Inr finishing_status))
       (\<lambda>time_status.
     bind_result (py_getitem result ''points'') (\<lambda>pts.
     bind_result (py_getitem result ''laps'') (\<lambda>laps.
     bind_result (if py_truthy (j_driver_standing j)
                  then py_getitem (j_driver_standing j) ''points''
                  else Inr (JStr ''N/A'')) (\<lambda>total.
       Inr \<lparr>Season = season, Round = round_number,
            Race_Name = race_name race, Circuit_Name = circuit_name race,
            Location = location race, Race_Date = race_date race,
            Driver_Name = py_str given @ '' '' @ py_str family,
            Driver_ID = j_driver_id j,
            Driver_Nationality = nationality,
            Constructor = constructor_name,
            Qualifying_Position = j_qual_position j,
            Q1_Time = j_q1_time j, Q2_Time = j_q2_time j, Q3_Time = j_q3_time j,
            Starting_Grid_Position = grid,
            Final_Position = final,
            Finishing_Status = finishing_status,
            Time_Status = time_status,
            Points = pts,
            Laps_Completed = laps,
            Driver_Total_Points = total,
            Pit_Stop_Count = num_pitstops,
            Pit_Stop_Details = details\<rparr>))))))))))))))"

text \<open>
  One pass of the loop over \<^verbatim>\<open>race_results\<close>. The second component is the exception
  that left the body, if any; the state keeps what was done before it.
\<close>

definition process_result ::
  "world \<Rightarrow> int \<Rightarrow> int \<Rightarrow> race_details \<Rightarrow> json \<Rightarrow> (json \<times> json) list \<Rightarrow> json \<Rightarrow> state
     \<Rightarrow> state \<times> error option" where
  "process_result w season round_number race standings qualifying_data result st =
     (case join_driver standings qualifying_data result of
        Inl e \<Rightarrow> (st, Some e)
      | Inr j \<Rightarrow>
          (case fetch_pitstops w season round_number (j_driver_id j) st of
             (Inl e, st1) \<Rightarrow> (st1, Some e)
           | (Inr pitstops, st1) \<Rightarrow>
               (case build_row season round_number race j pitstops result of
                  Inl e \<Rightarrow> (st1, Some e)
                | Inr row \<Rightarrow> (st1\<lparr>all_race_data := all_race_data st1 @ [row]\<rparr>, None))))"

fun for_results ::
  "world \<Rightarrow> int \<Rightarrow> int \<Rightarrow> race_details \<Rightarrow> json \<Rightarrow> (json \<times> json) list \<Rightarrow> json list \<Rightarrow> state
     \<Rightarrow> state \<times> error option" where
  "for_results w season round_number race standings qualifying_data [] st = (st, None)"
| "for_results w season round_number race standings qualifying_data (result # results) st =
     (case process_result w season round_number race standings qualifying_data result st of
        (st1, Some e) \<Rightarrow> (st1, Some e)
      | (st1, None) \<Rightarrow>
          for_results w season round_number race standings qualifying_data results st1)"

text \<open>The body of the loop over \<^verbatim>\<open>round_number\<close>.\<close>

definition process_round :: "world \<Rightarrow> int \<Rightarrow> int \<Rightarrow> state \<Rightarrow> state \<times> error option" where
  "process_round w season round_number st =
     (case fetch_race_data w season round_number st of
        (Inl e, st1) \<Rightarrow> (st1, Some e)
      | (Inr race, st1) \<Rightarrow>
          if \<not> py_truthy race then (st1, None)
          else
            (case read_race race of
               Inl e \<Rightarrow> (st1, Some e)
             | Inr details \<Rightarrow>
                 (case fetch_race_results w season round_number st1 of
                    (Inl e, st2) \<Rightarrow> (st2, Some e)
                  | (Inr race_results, st2) \<Rightarrow>
                      (case fetch_driver_standings w season round_number st2 of
                         (Inl e, st3) \<Rightarrow> (st3, Some e)
                       | (Inr standings, st3) \<Rightarrow>
                           (case fetch_qualifying_results w season round_number st3 of
                              (Inl e, st4) \<Rightarrow> (st4, Some e)
                            | (Inr qualifying_data, st4) \<Rightarrow>
                                (case py_iter race_results of
                                   Inl e \<Rightarrow> (st4, Some e)
                                 | Inr results \<Rightarrow>
                                     for_results w season round_number details standings
                                       qualifying_data results st4))))))"

section \<open>Enumerator and collector\<close>

text \<open>\<^verbatim>\<open>range(a, b)\<close>: the integers from \<^verbatim>\<open>a\<close> up to, not including, \<^verbatim>\<open>b\<close>.\<close>

definition py_range :: "int \<Rightarrow> int \<Rightarrow> int list" where
  "py_range a b = [a..b - 1]"

definition start_season :: int where
  "start_season = 2010"

definition end_season :: int where
  "end_season = 2024"

definition round_numbers :: "int list" where
  "round_numbers = py_range 1 30"

fun for_rounds :: "world \<Rightarrow> int \<Rightarrow> int list \<Rightarrow> state \<Rightarrow> state \<times> error option" where
  "for_rounds w season [] st = (st, None)"
| "for_rounds w season (round_number # rounds) st =
     (case process_round w season round_number st of
        (st1, Some e) \<Rightarrow> (st1, Some e)
      | (st1, None) \<Rightarrow> for_rounds w season rounds st1)"

fun for_seasons :: "world \<Rightarrow> int list \<Rightarrow> state \<Rightarrow> state \<times> error option" where
  "for_seasons w [] st = (st, None)"
| "for_seasons w (season # seasons) st =
     (case for_rounds w season round_numbers st of
        (st1, Some e) \<Rightarrow> (st1, Some e)
      | (st1, None) \<Rightarrow> for_seasons w seasons st1)"

definition main :: "world \<Rightarrow> state \<times> error option" where
  "main w =
     for_seasons w (py_range start_season (end_season + 1))
       \<lparr>all_race_data = [], requests = []\<rparr>"

section \<open>Conditions on payloads\<close>



section \<open>Sample answers of the remote service\<close>

definition not_found :: response where
  "not_found = \<lparr>status_code = 404, body = None\<rparr>"

definition ok :: "json \<Rightarrow> response" where
  "ok j = \<lparr>status_code = 200, body = Some j\<rparr>"

definition race_table :: "json \<Rightarrow> json" where
  "race_table rs = JObj [(''MRData'', JObj [(''RaceTable'', JObj [(''Races'', rs)])])]"

definition sample_driver :: "string \<Rightarrow> json" where
  "sample_driver d =
     JObj [(''driverId'', JStr d), (''givenName'', JStr ''Test''), (''familyName'', JStr d),
           (''nationality'', JStr ''British'')]"

definition finisher :: json where
  "finisher =
     JObj [(''position'', JStr ''1''), (''points'', JStr ''25''),
           (''Driver'', sample_driver ''hamilton''),
           (''Constructor'', JObj [(''name'', JStr ''Mercedes'')]),
           (''grid'', JStr ''2''), (''laps'', JStr ''56''), (''status'', JStr ''Finished''),
           (''Time'', JObj [(''millis'', JStr ''5523897''), (''time'', JStr ''1:32:03.897'')])]"

definition retiree :: json where
  "retiree =
     JObj [(''position'', JStr ''20''), (''points'', JStr ''0''),
           (''Driver'', sample_driver ''mazepin''),
           (''Constructor'', JObj [(''name'', JStr ''Haas F1 Team'')]),
           (''grid'', JStr ''19''), (''laps'', JStr ''0''), (''status'', JStr ''Retired'')]"

definition sample_race :: json where
  "sample_race =
     JObj [(''raceName'', JStr ''Bahrain Grand Prix''),
           (''Circuit'', JObj [(''circuitName'', JStr ''Bahrain International Circuit''),
                               (''Location'', JObj [(''locality'', JStr ''Sakhir'')])]),
           (''date'', JStr ''2021-03-28'')]"


definition sample_qualifying :: json where
  "sample_qualifying =
     JObj [(''position'', JStr ''2''), (''Driver'', sample_driver ''hamilton''),
           (''Q1'', JStr ''1:30.617''), (''Q2'', JStr ''1:30.085'')]"

definition sample_stops :: json where
  "sample_stops =
     JArr [JObj [(''stop'', JStr ''1''), (''lap'', JStr ''15''), (''duration'', JStr ''2.4'')],
           JObj [(''stop'', JStr ''2''), (''lap'', JStr ''40''), (''duration'', JStr ''3.1'')]]"

definition start :: state where
  "start = \<lparr>all_race_data = [], requests = []\<rparr>"


definition sample_details :: race_details where
  "sample_details =
     \<lparr>race_name = JStr ''Bahrain Grand Prix'',
      circuit_name = JStr ''Bahrain International Circuit'',
      location = JStr ''Sakhir'', race_date = JStr ''2021-03-28''\<rparr>"


text \<open>A service that answers every request with the same two pit stops.\<close>

definition pitstops_world :: world where
  "pitstops_world url = ok (race_table (JArr [JObj [(''PitStops'', sample_stops)]]))"

text \<open>
  A service that knows one race only, round 30 of season 2010, under the address the
  program would ask for it.
\<close>

definition round_30_only :: world where
  "round_30_only url =
     (if url = ''http://ergast.com/api/f1/2010/30.json'' then ok (race_table (JArr [sample_race]))
      else not_found)"

text \<open>
  A service that answers every request with one qualifying entry, which has no \<^verbatim>\<open>Q3\<close>,
  and the record the fetcher makes of that entry.
\<close>

definition qualifying_world :: world where
  "qualifying_world url =
     ok (race_table (JArr [JObj [(''QualifyingResults'', JArr [sample_qualifying])]]))"

definition sample_info :: json where
  "sample_info =
     JObj [(''position'', JStr ''2''), (''Q1'', JStr ''1:30.617''),
           (''Q2'', JStr ''1:30.085''), (''Q3'', JStr ''N/A'')]"

section \<open>Basic facts\<close>

lemma bind_result_Inl [simp]: "bind_result (Inl e) f = Inl e"
  by (simp add: bind_result_def)

lemma bind_result_Inr [simp]: "bind_result (Inr x) f = f x"
  by (simp add: bind_result_def)

lemma snd_fetch_race_data [simp]:
  "snd (fetch_race_data w season round_number st) =
     st\<lparr>requests := requests st @ [race_url season round_number]\<rparr>"
  by (simp add: fetch_race_data_def requests_get_def)

lemma bind_result_eq_Inr:
  "bind_result r f = Inr y \<longleftrightarrow> (\<exists>x. r = Inr x \<and> f x = Inr y)"
  by (cases r) simp_all

lemma bind_result_return [simp]: "bind_result r Inr = r"
  by (cases r) simp_all

lemma snd_fetch_pitstops [simp]:
  "snd (fetch_pitstops w season round_number driver_id st) =
     st\<lparr>requests := requests st @ [pitstops_url season round_number driver_id]\<rparr>"
  by (simp add: fetch_pitstops_def requests_get_def)

lemma process_result_NoneD:
  assumes "process_result w season round_number race standings qualifying_data result st
             = (st', None)"
  shows "\<exists>j pitstops row.
           join_driver standings qualifying_data result = Inr j
         \<and> fst (fetch_pitstops w season round_number (j_driver_id j) st) = Inr pitstops
         \<and> build_row season round_number race j pitstops result = Inr row
         \<and> requests st' = requests st @ [pitstops_url season round_number (j_driver_id j)]
         \<and> all_race_data st' = all_race_data st @ [row]"
proof (cases "join_driver standings qualifying_data result")
  case (Inl e)
  with assms show ?thesis by (simp add: process_result_def)
next
  case (Inr j)
  obtain r st1 where f: "fetch_pitstops w season round_number (j_driver_id j) st = (r, st1)"
    by (cases "fetch_pitstops w season round_number (j_driver_id j) st")
  have st1: "st1 = st\<lparr>requests := requests st @ [pitstops_url season round_number (j_driver_id j)]\<rparr>"
    using snd_fetch_pitstops [of w season round_number "j_driver_id j" st] f by simp
  show ?thesis
  proof (cases r)
    case (Inl e)
    with assms Inr f show ?thesis by (simp add: process_result_def)
  next
    case pit: (Inr pitstops)
    show ?thesis
    proof (cases "build_row season round_number race j pitstops result")
      case (Inl e)
      with assms Inr f pit show ?thesis by (simp add: process_result_def)
    next
      case row: (Inr row)
      with assms Inr f pit have "st' = st1\<lparr>all_race_data := all_race_data st1 @ [row]\<rparr>"
        by (simp add: process_result_def)
      with Inr f pit row st1 show ?thesis by simp
    qed
  qed
qed

lemma build_row_time_status:
  assumes "build_row season round_number race j pitstops result = Inr row"
  shows "\<exists>c fs. py_contains ''Time'' result = Inr c
           \<and> py_getitem result ''status'' = Inr fs
           \<and> Finishing_Status row = fs
           \<and> (if c then py_path result [''Time'', ''time''] else Inr fs) = Inr (Time_Status row)"
  using assms unfolding build_row_def bind_result_eq_Inr
  by clarsimp (auto split: if_splits)




lemma join_driver_InrD:
  assumes "join_driver standings qualifying_data result = Inr j"
  shows "\<exists>ss. py_iter standings = Inr ss
           \<and> py_path result [''Driver'', ''driverId''] = Inr (j_driver_id j)
           \<and> next_standing ss (j_driver_id j) = Inr (j_driver_standing j)"
  using assms unfolding join_driver_def bind_result_eq_Inr
  by clarsimp


lemma map_result_InrD:
  "map_result f xs = Inr ys \<Longrightarrow> list_all2 (\<lambda>x y. f x = Inr y) xs ys"
  by (induction xs arbitrary: ys) (auto simp: bind_result_eq_Inr)

lemma pitstop_text_InrD:
  assumes "pitstop_text p = Inr t"
  shows "\<exists>n l d. py_getitem p ''stop'' = Inr n \<and> py_getitem p ''lap'' = Inr l
           \<and> py_getitem p ''duration'' = Inr d
           \<and> t = ''Stop '' @ py_str n @ '' @Lap '' @ py_str l @ '' (Duration='' @ py_str d
                   @ ''s)''"
  using assms unfolding pitstop_text_def bind_result_eq_Inr
  by auto

lemma py_len_truthy: "py_len x = Inr n \<Longrightarrow> py_truthy x = (n \<noteq> 0)"
  by (cases x) auto

lemma build_row_pitstops:
  assumes "build_row season round_number race j pitstops result = Inr row"
  shows "py_len pitstops = Inr (Pit_Stop_Count row)
         \<and> pitstop_details pitstops = Inr (Pit_Stop_Details row)"
  using assms unfolding build_row_def bind_result_eq_Inr
  by clarsimp

lemma process_round_absent:
  "status_code (w (race_url season round_number)) \<noteq> 200 \<Longrightarrow>
   process_round w season round_number st
     = (st\<lparr>requests := requests st @ [race_url season round_number]\<rparr>, None)"
  by (simp add: process_round_def fetch_race_data_def requests_get_def)

lemma for_rounds_absent:
  "list_all (\<lambda>r. status_code (w (race_url season r)) \<noteq> 200) rounds \<Longrightarrow>
   for_rounds w season rounds st
     = (st\<lparr>requests := requests st @ map (race_url season) rounds\<rparr>, None)"
  by (induction rounds arbitrary: st) (simp_all add: process_round_absent)

lemma for_seasons_absent:
  "list_all (\<lambda>s. list_all (\<lambda>r. status_code (w (race_url s r)) \<noteq> 200) round_numbers) seasons \<Longrightarrow>
   for_seasons w seasons st
     = (st\<lparr>requests := requests st
            @ concat (map (\<lambda>s. map (race_url s) round_numbers) seasons)\<rparr>, None)"
  by (induction seasons arbitrary: st) (simp_all add: for_rounds_absent)

lemma py_eq_refl: "py_hashable k \<Longrightarrow> py_eq k k"
  by (cases k) simp_all

lemma dict_set_mem:
  "(k, v) \<in> set (dict_set qd k0 v0) \<Longrightarrow>
   (k, v) \<in> set qd \<or> (v = v0 \<and> (k = k0 \<or> py_eq k k0))"
  by (induction qd) (auto split: if_splits)

lemma qualifying_entry_InrD:
  assumes "qualifying_entry entry = Inr (sid, v)"
  shows "\<exists>kvs position.
           entry = JObj kvs
         \<and> py_path entry [''Driver'', ''driverId''] = Inr sid
         \<and> py_hashable sid
         \<and> map_of kvs ''position'' = Some position
         \<and> v = JObj [(''position'', position),
                      (''Q1'', case map_of kvs ''Q1'' of None \<Rightarrow> JStr ''N/A'' | Some t \<Rightarrow> t),
                      (''Q2'', case map_of kvs ''Q2'' of None \<Rightarrow> JStr ''N/A'' | Some t \<Rightarrow> t),
                      (''Q3'', case map_of kvs ''Q3'' of None \<Rightarrow> JStr ''N/A'' | Some t \<Rightarrow> t)]"
proof -
  from assms obtain kvs where k: "entry = JObj kvs"
    unfolding qualifying_entry_def bind_result_eq_Inr
    by (cases entry) auto
  from assms show ?thesis
    unfolding qualifying_entry_def bind_result_eq_Inr k
    by (auto split: if_splits option.splits)
qed

lemma qualifying_loop_mem:
  "qualifying_loop qd entries = Inr qd' \<Longrightarrow> (k, v) \<in> set qd' \<Longrightarrow>
   (k, v) \<in> set qd
   \<or> (\<exists>entry \<in> set entries. \<exists>sid. qualifying_entry entry = Inr (sid, v) \<and> py_eq k sid)"
proof (induction entries arbitrary: qd)
  case Nil
  then show ?case by simp
next
  case (Cons e es)
  from Cons.prems(1) obtain sid0 v0 where
    q: "qualifying_entry e = Inr (sid0, v0)"
    and l: "qualifying_loop (dict_set qd sid0 v0) es = Inr qd'"
    by (auto simp: bind_result_eq_Inr)
  from qualifying_entry_InrD [OF q] have h: "py_hashable sid0" by blast
  from Cons.IH [OF l Cons.prems(2)] show ?case
  proof
    assume "(k, v) \<in> set (dict_set qd sid0 v0)"
    from dict_set_mem [OF this] show ?thesis
      using q py_eq_refl [OF h] by auto
  next
    assume "\<exists>entry\<in>set es. \<exists>sid. qualifying_entry entry = Inr (sid, v) \<and> py_eq k sid"
    then show ?thesis by auto
  qed
qed

lemma fetch_qualifying_results_InrD:
  assumes "fst (fetch_qualifying_results w season round_number st) = Inr qd"
  shows "qd = []
         \<or> (\<exists>j data d qs entries.
               status_code (w (qualifying_url season round_number)) = 200
             \<and> body (w (qualifying_url season round_number)) = Some j
             \<and> py_path j [''MRData'', ''RaceTable'', ''Races''] = Inr data
             \<and> py_getitem0 data = Inr d
             \<and> py_getitem d ''QualifyingResults'' = Inr qs
             \<and> py_iter qs = Inr entries
             \<and> qualifying_loop [] entries = Inr qd)"
proof (cases "status_code (w (qualifying_url season round_number)) = 200")
  case False
  with assms show ?thesis
    by (simp add: fetch_qualifying_results_def requests_get_def)
next
  case True
  with assms obtain j where
    j: "body (w (qualifying_url season round_number)) = Some j"
    and b: "bind_result (py_path j [''MRData'', ''RaceTable'', ''Races'']) (\<lambda>data.
         bind_result (nonempty data) (\<lambda>c.
         bind_result (if c then bind_result (py_getitem0 data) (py_contains ''QualifyingResults'')
                      else Inr False) (\<lambda>c'.
           if c' then
             bind_result (py_getitem0 data) (\<lambda>d.
             bind_result (py_getitem d ''QualifyingResults'') (\<lambda>qs.
             bind_result (py_iter qs) (qualifying_loop [])))
           else Inr []))) = Inr qd"
    by (auto simp: fetch_qualifying_results_def requests_get_def response_json_def
          simp del: py_path.simps split: option.splits)
  from b obtain data c' where
    p: "py_path j [''MRData'', ''RaceTable'', ''Races''] = Inr data"
    and r: "(if c' then
             bind_result (py_getitem0 data) (\<lambda>d.
             bind_result (py_getitem d ''QualifyingResults'') (\<lambda>qs.
             bind_result (py_iter qs) (qualifying_loop [])))
           else Inr []) = Inr qd"
    unfolding bind_result_eq_Inr by blast
  show ?thesis
  proof (cases c')
    case False
    with r show ?thesis by simp
  next
    case c: True
    with r obtain d qs entries where
      "py_getitem0 data = Inr d" "py_getitem d ''QualifyingResults'' = Inr qs"
      "py_iter qs = Inr entries" "qualifying_loop [] entries = Inr qd"
      by (auto simp: bind_result_eq_Inr)
    with True j p show ?thesis by blast
  qed
qed

section \<open>Race metadata\<close>

text \<open>
  C10. When the race-metadata request succeeds and the payload's race list is not empty,
  \<^verbatim>\<open>fetch_race_data\<close> returns the first race of the list; the races after it play no
  part in the result.
\<close>

theorem fetch_race_data_first:
  assumes "status_code (w (race_url season round_number)) = 200"
    and "body (w (race_url season round_number)) = Some j"
    and "py_path j [''MRData'', ''RaceTable'', ''Races''] = Inr (JArr (race # others))"
  shows "fst (fetch_race_data w season round_number st) = Inr race"
  using assms by (simp add: fetch_race_data_def requests_get_def response_json_def)

theorem fetch_race_data_first_witness:
  "fst (fetch_race_data (\<lambda>url. ok (race_table (JArr [JStr ''first'', JStr ''second''])))
          2021 1 \<lparr>all_race_data = [], requests = []\<rparr>) = Inr (JStr ''first'')"
  by (rule fetch_race_data_first [where j = "race_table (JArr [JStr ''first'', JStr ''second''])"
        and others = "[JStr ''second'']"])
     (simp_all add: ok_def race_table_def)

text \<open>
  C1. When \<^verbatim>\<open>fetch_race_data\<close> returns \<^verbatim>\<open>None\<close> for a season and round, the pass of the
  round loop leaves the collected rows as they were, has made the race-metadata request
  and no other, and raises nothing; the loop goes on with the next round.
\<close>

theorem absent_race_skips_round:
  assumes "fst (fetch_race_data w season round_number st) = Inr JNull"
  shows "process_round w season round_number st =
           (st\<lparr>requests := requests st @ [race_url season round_number]\<rparr>, None)
         \<and> for_rounds w season (round_number # rounds) st =
           for_rounds w season rounds
             (st\<lparr>requests := requests st @ [race_url season round_number]\<rparr>)"
proof -
  obtain r st1 where f: "fetch_race_data w season round_number st = (r, st1)"
    by (cases "fetch_race_data w season round_number st")
  from f assms have r: "r = Inr JNull" by simp
  from f have st1: "st1 = st\<lparr>requests := requests st @ [race_url season round_number]\<rparr>"
    using snd_fetch_race_data [of w season round_number st] by simp
  have p: "process_round w season round_number st = (st1, None)"
    by (simp add: process_round_def f r)
  show ?thesis using p st1 by simp
qed

theorem absent_race_skips_round_witness:
  "fst (fetch_race_data (\<lambda>url. not_found) 2021 23 \<lparr>all_race_data = [], requests = []\<rparr>)
     = Inr JNull
   \<and> process_round (\<lambda>url. not_found) 2021 23 \<lparr>all_race_data = [], requests = []\<rparr> =
       (\<lparr>all_race_data = [], requests = [''http://ergast.com/api/f1/2021/23.json'']\<rparr>, None)"
proof -
  have h: "fst (fetch_race_data (\<lambda>url. not_found) 2021 23
                  \<lparr>all_race_data = [], requests = []\<rparr>) = Inr JNull"
    by (simp add: fetch_race_data_def requests_get_def not_found_def)
  have u: "race_url 2021 23 = ''http://ergast.com/api/f1/2021/23.json''"
    by code_simp
  from absent_race_skips_round [OF h, of "[]"] u h show ?thesis by simp
qed

section \<open>Per-driver join\<close>

text \<open>
  C7. In every emitted row the \<^verbatim>\<open>Time/Status\<close> entry is the \<^verbatim>\<open>time\<close> of the result's
  \<^verbatim>\<open>Time\<close> record when the result has the key \<^verbatim>\<open>Time\<close>, and otherwise the text of its
  \<^verbatim>\<open>status\<close>, the same value as the row's \<^verbatim>\<open>Finishing Status\<close>; no placeholder is ever
  put there.
\<close>

theorem time_status_field:
  assumes "process_result w season round_number race standings qualifying_data result st
             = (st', None)"
  shows "\<exists>row kvs status.
           result = JObj kvs
         \<and> all_race_data st' = all_race_data st @ [row]
         \<and> map_of kvs ''status'' = Some status
         \<and> Finishing_Status row = status
         \<and> (case map_of kvs ''Time'' of
              None \<Rightarrow> Time_Status row = status
            | Some t \<Rightarrow> py_getitem t ''time'' = Inr (Time_Status row))"
proof -
  from process_result_NoneD [OF assms] obtain j pitstops row where
    b: "build_row season round_number race j pitstops result = Inr row"
    and a: "all_race_data st' = all_race_data st @ [row]"
    by blast
  from build_row_time_status [OF b] obtain c fs where
    c: "py_contains ''Time'' result = Inr c"
    and s: "py_getitem result ''status'' = Inr fs"
    and f: "Finishing_Status row = fs"
    and t: "(if c then py_path result [''Time'', ''time''] else Inr fs) = Inr (Time_Status row)"
    by blast
  from s obtain kvs where k: "result = JObj kvs"
    by (cases result) simp_all
  from s k have m: "map_of kvs ''status'' = Some fs"
    by (simp split: option.splits)
  from c k have c': "c = (map_of kvs ''Time'' \<noteq> None)"
    by (auto simp: map_of_eq_None_iff)
  from t c' k have "case map_of kvs ''Time'' of
              None \<Rightarrow> Time_Status row = fs
            | Some t \<Rightarrow> py_getitem t ''time'' = Inr (Time_Status row)"
    by (auto split: option.splits if_splits)
  with k a m f show ?thesis by blast
qed


theorem time_status_field_witness:
  "snd (process_result (\<lambda>url. not_found) 2021 1 sample_details (JArr []) [] retiree start)
     = None
   \<and> (\<exists>row. all_race_data (fst (process_result (\<lambda>url. not_found) 2021 1 sample_details
                 (JArr []) [] retiree start)) = [row]
          \<and> Time_Status row = JStr ''Retired'')
   \<and> snd (process_result (\<lambda>url. not_found) 2021 1 sample_details (JArr []) [] finisher start)
     = None
   \<and> (\<exists>row. all_race_data (fst (process_result (\<lambda>url. not_found) 2021 1 sample_details
                 (JArr []) [] finisher start)) = [row]
          \<and> Time_Status row = JStr ''1:32:03.897'')"
proof -
  let ?run = "process_result (\<lambda>url. not_found) 2021 1 sample_details (JArr []) []"
  have n: "snd (?run retiree start) = None"
    by code_simp
  then obtain st' where e: "?run retiree start = (st', None)"
    by (cases "?run retiree start") simp
  from time_status_field [OF e] obtain row kvs status where
    k: "retiree = JObj kvs" and a: "all_race_data st' = all_race_data start @ [row]"
    and s: "map_of kvs ''status'' = Some status"
    and t: "case map_of kvs ''Time'' of None \<Rightarrow> Time_Status row = status
            | Some t \<Rightarrow> py_getitem t ''time'' = Inr (Time_Status row)"
    by blast
  from k s t have "Time_Status row = JStr ''Retired''"
    by (auto simp: retiree_def)
  with a e have r: "\<exists>row. all_race_data (fst (?run retiree start)) = [row]
                      \<and> Time_Status row = JStr ''Retired''"
    by (simp add: start_def)
  have n': "snd (?run finisher start) = None"
    by code_simp
  then obtain st'' where e': "?run finisher start = (st'', None)"
    by (cases "?run finisher start") simp
  from time_status_field [OF e'] obtain row' kvs' status' where
    k': "finisher = JObj kvs'" and a': "all_race_data st'' = all_race_data start @ [row']"
    and t': "case map_of kvs' ''Time'' of None \<Rightarrow> Time_Status row' = status'
            | Some t \<Rightarrow> py_getitem t ''time'' = Inr (Time_Status row')"
    by blast
  from k' t' have "Time_Status row' = JStr ''1:32:03.897''"
    by (auto simp: finisher_def)
  with a' e' have r': "\<exists>row. all_race_data (fst (?run finisher start)) = [row]
                      \<and> Time_Status row = JStr ''1:32:03.897''"
    by (simp add: start_def)
  from n r n' r' show ?thesis by blast
qed




text \<open>
  C6. In every emitted row, \<^verbatim>\<open>Pit Stop Count\<close> is the length of the sequence that the one
  pit-stop request of the loop pass returned for the result's driver, and
  \<^verbatim>\<open>Pit Stop Details\<close> is \<^verbatim>\<open>No Pitstops\<close> when that sequence is empty and otherwise the
  texts \<^verbatim>\<open>Stop n @Lap l (Duration=ds)\<close> of its stops, in order, joined by \<^verbatim>\<open>; \<close>. The
  pass adds exactly one request to the log, so both entries come from the same fetched
  sequence.
\<close>

theorem pit_stop_fields:
  assumes "process_result w season round_number race standings qualifying_data result st
             = (st', None)"
  shows "\<exists>row driver_id pitstops.
           all_race_data st' = all_race_data st @ [row]
         \<and> py_path result [''Driver'', ''driverId''] = Inr driver_id
         \<and> requests st' = requests st @ [pitstops_url season round_number driver_id]
         \<and> fst (fetch_pitstops w season round_number driver_id st) = Inr pitstops
         \<and> py_len pitstops = Inr (Pit_Stop_Count row)
         \<and> (if Pit_Stop_Count row = 0 then Pit_Stop_Details row = ''No Pitstops''
            else \<exists>ps texts.
                   py_iter pitstops = Inr ps
                 \<and> list_all2 (\<lambda>p t. \<exists>n l d.
                       py_getitem p ''stop'' = Inr n \<and> py_getitem p ''lap'' = Inr l
                     \<and> py_getitem p ''duration'' = Inr d
                     \<and> t = ''Stop '' @ py_str n @ '' @Lap '' @ py_str l @ '' (Duration=''
                             @ py_str d @ ''s)'') ps texts
                 \<and> Pit_Stop_Details row = py_join ''; '' texts)"
proof -
  from process_result_NoneD [OF assms] obtain j pitstops row where
    j: "join_driver standings qualifying_data result = Inr j"
    and f: "fst (fetch_pitstops w season round_number (j_driver_id j) st) = Inr pitstops"
    and b: "build_row season round_number race j pitstops result = Inr row"
    and r: "requests st' = requests st @ [pitstops_url season round_number (j_driver_id j)]"
    and a: "all_race_data st' = all_race_data st @ [row]"
    by blast
  from join_driver_InrD [OF j] have d:
    "py_path result [''Driver'', ''driverId''] = Inr (j_driver_id j)"
    by blast
  from build_row_pitstops [OF b] have
    l: "py_len pitstops = Inr (Pit_Stop_Count row)"
    and p: "pitstop_details pitstops = Inr (Pit_Stop_Details row)"
    by simp_all
  note t = py_len_truthy [OF l]
  have "if Pit_Stop_Count row = 0 then Pit_Stop_Details row = ''No Pitstops''
            else \<exists>ps texts.
                   py_iter pitstops = Inr ps
                 \<and> list_all2 (\<lambda>p t. \<exists>n l d.
                       py_getitem p ''stop'' = Inr n \<and> py_getitem p ''lap'' = Inr l
                     \<and> py_getitem p ''duration'' = Inr d
                     \<and> t = ''Stop '' @ py_str n @ '' @Lap '' @ py_str l @ '' (Duration=''
                             @ py_str d @ ''s)'') ps texts
                 \<and> Pit_Stop_Details row = py_join ''; '' texts"
  proof (cases "Pit_Stop_Count row = 0")
    case True
    with t p show ?thesis by (simp add: pitstop_details_def)
  next
    case False
    with t p obtain ps texts where
      i: "py_iter pitstops = Inr ps"
      and m: "map_result pitstop_text ps = Inr texts"
      and s: "Pit_Stop_Details row = py_join ''; '' texts"
      by (auto simp: pitstop_details_def bind_result_eq_Inr)
    from map_result_InrD [OF m] have "list_all2 (\<lambda>p t. pitstop_text p = Inr t) ps texts" .
    then have "list_all2 (\<lambda>p t. \<exists>n l d.
                       py_getitem p ''stop'' = Inr n \<and> py_getitem p ''lap'' = Inr l
                     \<and> py_getitem p ''duration'' = Inr d
                     \<and> t = ''Stop '' @ py_str n @ '' @Lap '' @ py_str l @ '' (Duration=''
                             @ py_str d @ ''s)'') ps texts"
      by (rule list_all2_mono) (rule pitstop_text_InrD)
    with False i s show ?thesis by auto
  qed
  with a d r f l show ?thesis by blast
qed

theorem pit_stop_fields_witness:
  "snd (process_result pitstops_world 2021 1 sample_details (JArr []) [] finisher start) = None
   \<and> map Pit_Stop_Count (all_race_data (fst (process_result pitstops_world 2021 1
        sample_details (JArr []) [] finisher start))) = [2]
   \<and> map Pit_Stop_Details (all_race_data (fst (process_result pitstops_world 2021 1
        sample_details (JArr []) [] finisher start)))
       = [''Stop 1 @Lap 15 (Duration=2.4s); Stop 2 @Lap 40 (Duration=3.1s)'']
   \<and> requests (fst (process_result pitstops_world 2021 1 sample_details (JArr []) []
        finisher start))
       = [''http://ergast.com/api/f1/2021/1/drivers/hamilton/pitstops.json'']
   \<and> snd (process_result (\<lambda>url. not_found) 2021 1 sample_details (JArr []) [] retiree start)
       = None
   \<and> map Pit_Stop_Count (all_race_data (fst (process_result (\<lambda>url. not_found) 2021 1
        sample_details (JArr []) [] retiree start))) = [0]
   \<and> map Pit_Stop_Details (all_race_data (fst (process_result (\<lambda>url. not_found) 2021 1
        sample_details (JArr []) [] retiree start))) = [''No Pitstops'']"
proof -
  let ?run = "process_result pitstops_world 2021 1 sample_details (JArr []) [] finisher start"
  let ?idle = "process_result (\<lambda>url. not_found) 2021 1 sample_details (JArr []) [] retiree start"
  have u: "pitstops_url 2021 1 (JStr ''hamilton'')
             = ''http://ergast.com/api/f1/2021/1/drivers/hamilton/pitstops.json''"
    by code_simp
  have n: "snd ?run = None"
    by code_simp
  then obtain st' where e: "?run = (st', None)"
    by (cases ?run) simp
  from pit_stop_fields [OF e] obtain row driver_id pitstops where
    a: "all_race_data st' = all_race_data start @ [row]"
    and d: "py_path finisher [''Driver'', ''driverId''] = Inr driver_id"
    and r: "requests st' = requests start @ [pitstops_url 2021 1 driver_id]"
    and f: "fst (fetch_pitstops pitstops_world 2021 1 driver_id start) = Inr pitstops"
    and l: "py_len pitstops = Inr (Pit_Stop_Count row)"
    and t: "if Pit_Stop_Count row = 0 then Pit_Stop_Details row = ''No Pitstops''
            else \<exists>ps texts.
                   py_iter pitstops = Inr ps
                 \<and> list_all2 (\<lambda>p t. \<exists>n l d.
                       py_getitem p ''stop'' = Inr n \<and> py_getitem p ''lap'' = Inr l
                     \<and> py_getitem p ''duration'' = Inr d
                     \<and> t = ''Stop '' @ py_str n @ '' @Lap '' @ py_str l @ '' (Duration=''
                             @ py_str d @ ''s)'') ps texts
                 \<and> Pit_Stop_Details row = py_join ''; '' texts"
    by blast
  from d have did: "driver_id = JStr ''hamilton''"
    by (simp add: finisher_def sample_driver_def)
  from f have ps: "pitstops = sample_stops"
    by (simp add: fetch_pitstops_def requests_get_def pitstops_world_def ok_def race_table_def
          response_json_def)
  from l ps have c: "Pit_Stop_Count row = 2"
    by (simp add: sample_stops_def)
  from t c ps have "Pit_Stop_Details row
      = ''Stop 1 @Lap 15 (Duration=2.4s); Stop 2 @Lap 40 (Duration=3.1s)''"
    by (auto simp: sample_stops_def list_all2_Cons1)
  with a c r did u e have 1: "map Pit_Stop_Count (all_race_data (fst ?run)) = [2]"
    and 2: "map Pit_Stop_Details (all_race_data (fst ?run))
       = [''Stop 1 @Lap 15 (Duration=2.4s); Stop 2 @Lap 40 (Duration=3.1s)'']"
    and 3: "requests (fst ?run)
       = [''http://ergast.com/api/f1/2021/1/drivers/hamilton/pitstops.json'']"
    by (simp_all add: start_def)
  have n0: "snd ?idle = None"
    by code_simp
  then obtain st0 where e0: "?idle = (st0, None)"
    by (cases ?idle) simp
  from pit_stop_fields [OF e0] obtain row0 driver_id0 pitstops0 where
    a0: "all_race_data st0 = all_race_data start @ [row0]"
    and f0: "fst (fetch_pitstops (\<lambda>url. not_found) 2021 1 driver_id0 start) = Inr pitstops0"
    and l0: "py_len pitstops0 = Inr (Pit_Stop_Count row0)"
    and t0: "if Pit_Stop_Count row0 = 0 then Pit_Stop_Details row0 = ''No Pitstops''
            else \<exists>ps texts.
                   py_iter pitstops0 = Inr ps
                 \<and> list_all2 (\<lambda>p t. \<exists>n l d.
                       py_getitem p ''stop'' = Inr n \<and> py_getitem p ''lap'' = Inr l
                     \<and> py_getitem p ''duration'' = Inr d
                     \<and> t = ''Stop '' @ py_str n @ '' @Lap '' @ py_str l @ '' (Duration=''
                             @ py_str d @ ''s)'') ps texts
                 \<and> Pit_Stop_Details row0 = py_join ''; '' texts"
    by blast
  from f0 have "pitstops0 = JArr []"
    by (simp add: fetch_pitstops_def requests_get_def not_found_def)
  with l0 have c0: "Pit_Stop_Count row0 = 0"
    by simp
  with t0 have "Pit_Stop_Details row0 = ''No Pitstops''"
    by simp
  with a0 c0 e0 have 4: "map Pit_Stop_Count (all_race_data (fst ?idle)) = [0]"
    and 5: "map Pit_Stop_Details (all_race_data (fst ?idle)) = [''No Pitstops'']"
    by (simp_all add: start_def)
  from n 1 2 3 n0 4 5 show ?thesis by blast
qed

section \<open>Enumeration of seasons and rounds\<close>

text \<open>
  C4. The seasons are enumerated in ascending order over an inclusive range, but the
  rounds of a season are \<^verbatim>\<open>range(1, 30)\<close>, that is 1 to 29, although the comment beside the
  loop reads ``a max of 30 rounds per season''. Against a service that has a race at round
  30 of season 2010 the round loop of that season asks for rounds 1 to 29 only, collects
  nothing, and never requests round 30.
\<close>

theorem round_30_never_requested:
  "round_numbers = [1, 2, 3, 4, 5, 6, 7, 8, 9, 10, 11, 12, 13, 14, 15, 16, 17, 18, 19, 20,
     21, 22, 23, 24, 25, 26, 27, 28, 29]
   \<and> fst (fetch_race_data round_30_only 2010 30 start) = Inr sample_race
   \<and> for_rounds round_30_only 2010 round_numbers start
       = (\<lparr>all_race_data = [], requests = map (race_url 2010) round_numbers\<rparr>, None)
   \<and> race_url 2010 30 \<notin> set (map (race_url 2010) round_numbers)"
proof -
  have r: "round_numbers = [1, 2, 3, 4, 5, 6, 7, 8, 9, 10, 11, 12, 13, 14, 15, 16, 17, 18, 19, 20,
     21, 22, 23, 24, 25, 26, 27, 28, 29]"
    by code_simp
  have u: "race_url 2010 30 = ''http://ergast.com/api/f1/2010/30.json''"
    by code_simp
  have f: "fst (fetch_race_data round_30_only 2010 30 start) = Inr sample_race"
    by (simp add: fetch_race_data_def requests_get_def u round_30_only_def ok_def
          race_table_def response_json_def)
  have a: "list_all (\<lambda>r. status_code (round_30_only (race_url 2010 r)) \<noteq> 200) round_numbers"
    by code_simp
  have m: "for_rounds round_30_only 2010 round_numbers start
       = (\<lparr>all_race_data = [], requests = map (race_url 2010) round_numbers\<rparr>, None)"
    unfolding for_rounds_absent [OF a] by (simp add: start_def)
  have d: "list_all (\<lambda>r. race_url 2010 r \<noteq> ''http://ergast.com/api/f1/2010/30.json'')
             round_numbers"
    by code_simp
  have n: "race_url 2010 30 \<notin> set (map (race_url 2010) round_numbers)"
    using d unfolding u list_all_iff by auto
  show ?thesis
    by (intro conjI) (rule r, rule f, rule m, rule n)
qed

section \<open>Qualifying records\<close>

text \<open>
  C8. Every item of the mapping that \<^verbatim>\<open>fetch_qualifying_results\<close> returns was made from an
  entry of the payload's \<^verbatim>\<open>QualifyingResults\<close> with the item's driver identifier, and its
  value is a dictionary with exactly the keys \<^verbatim>\<open>position\<close>, \<^verbatim>\<open>Q1\<close>, \<^verbatim>\<open>Q2\<close> and \<^verbatim>\<open>Q3\<close>:
  each of the three times is the entry's value when the entry has the key and the string
  \<^verbatim>\<open>N/A\<close> when it has not, so none of the three keys is ever left out.
\<close>

theorem qualifying_defaults:
  assumes "fst (fetch_qualifying_results w season round_number st) = Inr qualifying_data"
    and "(driver_id, info) \<in> set qualifying_data"
  shows "\<exists>j data d qs entries kvs sid position.
           status_code (w (qualifying_url season round_number)) = 200
         \<and> body (w (qualifying_url season round_number)) = Some j
         \<and> py_path j [''MRData'', ''RaceTable'', ''Races''] = Inr data
         \<and> py_getitem0 data = Inr d
         \<and> py_getitem d ''QualifyingResults'' = Inr qs
         \<and> py_iter qs = Inr entries
         \<and> JObj kvs \<in> set entries
         \<and> py_path (JObj kvs) [''Driver'', ''driverId''] = Inr sid
         \<and> py_eq driver_id sid
         \<and> map_of kvs ''position'' = Some position
         \<and> info = JObj [(''position'', position),
                      (''Q1'', case map_of kvs ''Q1'' of None \<Rightarrow> JStr ''N/A'' | Some t \<Rightarrow> t),
                      (''Q2'', case map_of kvs ''Q2'' of None \<Rightarrow> JStr ''N/A'' | Some t \<Rightarrow> t),
                      (''Q3'', case map_of kvs ''Q3'' of None \<Rightarrow> JStr ''N/A'' | Some t \<Rightarrow> t)]"
proof -
  from fetch_qualifying_results_InrD [OF assms(1)] assms(2)
  obtain j data d qs entries where
    f: "status_code (w (qualifying_url season round_number)) = 200"
       "body (w (qualifying_url season round_number)) = Some j"
       "py_path j [''MRData'', ''RaceTable'', ''Races''] = Inr data"
       "py_getitem0 data = Inr d"
       "py_getitem d ''QualifyingResults'' = Inr qs"
       "py_iter qs = Inr entries"
    and l: "qualifying_loop [] entries = Inr qualifying_data"
    by auto
  from qualifying_loop_mem [OF l assms(2)] obtain entry sid where
    m: "entry \<in> set entries"
    and q: "qualifying_entry entry = Inr (sid, info)"
    and e: "py_eq driver_id sid"
    by auto
  from qualifying_entry_InrD [OF q] obtain kvs position where
    k: "entry = JObj kvs"
    and s: "py_path entry [''Driver'', ''driverId''] = Inr sid"
    and p: "map_of kvs ''position'' = Some position"
    and i: "info = JObj [(''position'', position),
                      (''Q1'', case map_of kvs ''Q1'' of None \<Rightarrow> JStr ''N/A'' | Some t \<Rightarrow> t),
                      (''Q2'', case map_of kvs ''Q2'' of None \<Rightarrow> JStr ''N/A'' | Some t \<Rightarrow> t),
                      (''Q3'', case map_of kvs ''Q3'' of None \<Rightarrow> JStr ''N/A'' | Some t \<Rightarrow> t)]"
    by blast
  from f m e k s p i show ?thesis by blast
qed

theorem qualifying_defaults_witness:
  "fst (fetch_qualifying_results qualifying_world 2021 1 start)
     = Inr [(JStr ''hamilton'', sample_info)]
   \<and> (\<exists>j data d qs entries kvs sid position.
           status_code (qualifying_world (qualifying_url 2021 1)) = 200
         \<and> body (qualifying_world (qualifying_url 2021 1)) = Some j
         \<and> py_path j [''MRData'', ''RaceTable'', ''Races''] = Inr data
         \<and> py_getitem0 data = Inr d
         \<and> py_getitem d ''QualifyingResults'' = Inr qs
         \<and> py_iter qs = Inr entries
         \<and> JObj kvs \<in> set entries
         \<and> py_path (JObj kvs) [''Driver'', ''driverId''] = Inr sid
         \<and> py_eq (JStr ''hamilton'') sid
         \<and> map_of kvs ''position'' = Some position
         \<and> sample_info = JObj [(''position'', position),
                      (''Q1'', case map_of kvs ''Q1'' of None \<Rightarrow> JStr ''N/A'' | Some t \<Rightarrow> t),
                      (''Q2'', case map_of kvs ''Q2'' of None \<Rightarrow> JStr ''N/A'' | Some t \<Rightarrow> t),
                      (''Q3'', case map_of kvs ''Q3'' of None \<Rightarrow> JStr ''N/A'' | Some t \<Rightarrow> t)])"
proof -
  have h: "fst (fetch_qualifying_results qualifying_world 2021 1 start)
             = Inr [(JStr ''hamilton'', sample_info)]"
    by code_simp
  have "\<exists>j data d qs entries kvs sid position.
           status_code (qualifying_world (qualifying_url 2021 1)) = 200
         \<and> body (qualifying_world (qualifying_url 2021 1)) = Some j
         \<and> py_path j [''MRData'', ''RaceTable'', ''Races''] = Inr data
         \<and> py_getitem0 data = Inr d
         \<and> py_getitem d ''QualifyingResults'' = Inr qs
         \<and> py_iter qs = Inr entries
         \<and> JObj kvs \<in> set entries
         \<and> py_path (JObj kvs) [''Driver'', ''driverId''] = Inr sid
         \<and> py_eq (JStr ''hamilton'') sid
         \<and> map_of kvs ''position'' = Some position
         \<and> sample_info = JObj [(''position'', position),
                      (''Q1'', case map_of kvs ''Q1'' of None \<Rightarrow> JStr ''N/A'' | Some t \<Rightarrow> t),
                      (''Q2'', case map_of kvs ''Q2'' of None \<Rightarrow> JStr ''N/A'' | Some t \<Rightarrow> t),
                      (''Q3'', case map_of kvs ''Q3'' of None \<Rightarrow> JStr ''N/A'' | Some t \<Rightarrow> t)]"
    by (rule qualifying_defaults [OF h]) simp
  with h show ?thesis by (rule conjI)
qed

end
